theory Spec2Isabelle
  imports Complex_Main
begin

section \<open>Data model (database.py)\<close>

text \<open>
  The two enumerations of database.py. \<open>all_component_types\<close> lists
  \<open>EvaluationComponentType\<close> in declaration order, which is the order in which
  Python iterates the enum; \<open>len(EvaluationComponentType)\<close> is its length.
\<close>

datatype TaskStatus = PENDING | PROCESSING | COMPLETED | FAILED

datatype EvaluationComponentType =
    TRANSCRIPTION | AUDIO_FEATURES | EMOTION_TEXT | SENTIMENT_TEXT
  | LINGUISTIC_TEXT | GRAMMAR | CONTENT_COMPARISON | PRONUNCIATION

definition all_component_types :: "EvaluationComponentType list" where
  "all_component_types =
     [TRANSCRIPTION, AUDIO_FEATURES, EMOTION_TEXT, SENTIMENT_TEXT,
      LINGUISTIC_TEXT, GRAMMAR, CONTENT_COMPARISON, PRONUNCIATION]"

definition len_EvaluationComponentType :: nat where
  "len_EvaluationComponentType = length all_component_types"

fun type_value :: "EvaluationComponentType \<Rightarrow> string" where
  "type_value TRANSCRIPTION = ''transcription''"
| "type_value AUDIO_FEATURES = ''audio_features''"
| "type_value EMOTION_TEXT = ''emotion_text''"
| "type_value SENTIMENT_TEXT = ''sentiment_text''"
| "type_value LINGUISTIC_TEXT = ''linguistic_text''"
| "type_value GRAMMAR = ''grammar''"
| "type_value CONTENT_COMPARISON = ''content_comparison''"
| "type_value PRONUNCIATION = ''pronunciation''"

text \<open>
  JSON values, as \<open>json.loads\<close> returns them. A \<open>result\<close> column holds the text
  \<open>json.dumps v\<close>; the model stores the value \<open>v\<close> itself, so that \<open>json.loads\<close> of a
  stored column is the stored value. \<open>json.dumps\<close> never returns the empty string, so
  a column is truthy exactly when it is not \<open>None\<close>. A dict is an association list
  whose first binding of a key is the dict's entry. Strings are lists of characters,
  one per code point, so \<open>len\<close> is \<open>length\<close>.
\<close>

datatype json =
    JNull | JBool bool | JNum rat | JStr string
  | JList "json list" | JDict "(string \<times> json) list"

datatype error =
    HTTP_404_NOT_FOUND | AttributeError | TypeError | ValueError
  | ValidationError | IntegrityError | StorageError

text \<open>Python truthiness of a value, of an optional string and of an optional value.\<close>

fun truthy :: "json \<Rightarrow> bool" where
  "truthy JNull = False"
| "truthy (JBool b) = b"
| "truthy (JNum n) = (n \<noteq> 0)"
| "truthy (JStr s) = (s \<noteq> [])"
| "truthy (JList xs) = (xs \<noteq> [])"
| "truthy (JDict kvs) = (kvs \<noteq> [])"

fun truthy_str :: "string option \<Rightarrow> bool" where
  "truthy_str None = False"
| "truthy_str (Some s) = (s \<noteq> [])"

fun truthy_opt :: "json option \<Rightarrow> bool" where
  "truthy_opt None = False"
| "truthy_opt (Some v) = truthy v"

text \<open>\<open>d.get(key)\<close> and \<open>d.get(key, default)\<close>: on anything but a dict the attribute
  \<open>get\<close> does not exist.\<close>

fun py_get :: "json \<Rightarrow> string \<Rightarrow> json \<Rightarrow> error + json" where
  "py_get (JDict kvs) k dflt = Inr (case map_of kvs k of None \<Rightarrow> dflt | Some v \<Rightarrow> v)"
| "py_get _ k dflt = Inl AttributeError"

fun py_len :: "json \<Rightarrow> error + nat" where
  "py_len (JStr s) = Inr (length s)"
| "py_len (JList xs) = Inr (length xs)"
| "py_len (JDict kvs) = Inr (length kvs)"
| "py_len _ = Inl TypeError"

fun opt_json :: "string option \<Rightarrow> json" where
  "opt_json None = JNull"
| "opt_json (Some s) = JStr s"

text \<open>Decimal rendering of a natural number, as an f-string renders an int.\<close>

fun string_of_nat :: "nat \<Rightarrow> string" where
  "string_of_nat n =
     (if n < 10 then [char_of (48 + n)]
      else string_of_nat (n div 10) @ [char_of (48 + n mod 10)])"

text \<open>
  The rows. Timestamps are readings of the UTC clock, as natural numbers. The fields of
  \<open>EvaluationComponentResult\<close> carry the prefix \<open>c_\<close>, those of \<open>BackgroundTask\<close> the
  prefix \<open>p_\<close> and those of \<open>PracticeSession\<close> the prefix \<open>ps_\<close>, since the three tables
  share column names.
\<close>

type_synonym datetime = nat

record EvaluationComponentResult =
  c_id :: nat
  c_parent_task_id :: string
  c_component_type :: EvaluationComponentType
  c_status :: TaskStatus
  c_status_message :: "string option"
  c_result :: "json option"
  c_error_message :: "string option"
  c_created_at :: datetime
  c_updated_at :: datetime
  c_completed_at :: "datetime option"

record BackgroundTask =
  p_id :: nat
  p_user_id :: nat
  p_task_id :: string
  p_task_type :: string
  p_topic :: "string option"
  p_difficulty :: "string option"
  p_question :: "string option"
  p_ideal_answer :: "string option"
  p_model :: "string option"
  p_status :: TaskStatus
  p_progress :: int
  p_status_message :: "string option"
  p_result :: "json option"
  p_error_message :: "string option"
  p_created_at :: datetime
  p_updated_at :: datetime
  p_completed_at :: "datetime option"

record PracticeSession =
  ps_id :: nat
  ps_parent_task_id :: string
  ps_user_id :: nat
  ps_topic :: "string option"
  ps_difficulty :: "string option"
  ps_question :: "string option"
  ps_ideal_answer :: "string option"
  ps_transcript :: json
  ps_grammar_feedback :: "json option"
  ps_pronunciation_feedback :: "json option"
  ps_content_evaluation :: "json option"
  ps_audio_features :: "json option"
  ps_linguistic_features :: "json option"
  ps_sentiment_analysis :: "json option"
  ps_emotion_analysis :: "json option"
  ps_rating :: rat
  ps_created_at :: datetime

text \<open>
  The state: the three tables in row order, and the jobs sent to Celery that no worker
  has taken yet, each a task name with its positional arguments, oldest first.
\<close>

type_synonym job = "string \<times> json list"

record system =
  background_tasks :: "BackgroundTask list"
  component_results :: "EvaluationComponentResult list"
  practice_sessions :: "PracticeSession list"
  queue :: "job list"

section \<open>Status Updater (tasks/component\_tasks.py)\<close>

text \<open>
  \<open>update_component_task_status_sync\<close>, lines 29 to 48. \<open>session.get\<close> finds the row by
  primary key; a missing row leaves the state unchanged. The two readings of the clock
  in one call are taken as the one instant \<open>now\<close>.
\<close>

definition update_component_entry ::
  "datetime \<Rightarrow> TaskStatus \<Rightarrow> string option \<Rightarrow> json option \<Rightarrow> string option \<Rightarrow>
   EvaluationComponentResult \<Rightarrow> EvaluationComponentResult" where
  "update_component_entry now status status_message result err task_entry =
     (let e1 = task_entry\<lparr>c_status := status\<rparr>;
          e2 = (if truthy_str status_message then e1\<lparr>c_status_message := status_message\<rparr> else e1);
          e3 = e2\<lparr>c_updated_at := now\<rparr>;
          e4 = (if truthy_opt result then e3\<lparr>c_result := result\<rparr> else e3);
          e5 = (if truthy_str err then e4\<lparr>c_error_message := err\<rparr> else e4)
      in if status \<in> set [COMPLETED, FAILED] then e5\<lparr>c_completed_at := Some now\<rparr> else e5)"

definition session_get_component :: "system \<Rightarrow> nat \<Rightarrow> EvaluationComponentResult option" where
  "session_get_component s component_id =
     find (\<lambda>r. c_id r = component_id) (component_results s)"

definition commit_component :: "EvaluationComponentResult \<Rightarrow> system \<Rightarrow> system" where
  "commit_component e s =
     s\<lparr>component_results := map (\<lambda>r. if c_id r = c_id e then e else r) (component_results s)\<rparr>"

definition update_component_task_status_sync ::
  "datetime \<Rightarrow> nat \<Rightarrow> TaskStatus \<Rightarrow> string option \<Rightarrow> json option \<Rightarrow> string option \<Rightarrow>
   system \<Rightarrow> system" where
  "update_component_task_status_sync now component_id status status_message result err s =
     (case session_get_component s component_id of
        None \<Rightarrow> s
      | Some task_entry \<Rightarrow>
          commit_component (update_component_entry now status status_message result err task_entry) s)"

text \<open>
  \<open>_run_component_task\<close>, lines 74 to 86. \<open>outcome\<close> is what \<open>analysis_func(*args)\<close> does:
  \<open>Inr\<close> the value it returns, \<open>Inl\<close> the text of the exception it raises.
\<close>

definition run_component_task ::
  "datetime \<Rightarrow> datetime \<Rightarrow> nat \<Rightarrow> string \<Rightarrow> string + json \<Rightarrow> system \<Rightarrow> system" where
  "run_component_task now1 now2 component_id status_message outcome s =
     (let s1 = update_component_task_status_sync now1 component_id PROCESSING
                 (Some (status_message @ ''...'')) None None s
      in case outcome of
           Inr result \<Rightarrow>
             update_component_task_status_sync now2 component_id COMPLETED
               (Some ''Analysis complete.'') (Some result) None s1
         | Inl e \<Rightarrow>
             (let error_msg = status_message @ '' error: '' @ e
              in update_component_task_status_sync now2 component_id FAILED
                   (Some error_msg) None (Some error_msg) s1))"

text \<open>
  The three LLM-backed tasks, lines 103 to 116. \<open>llm\<close> is what the call of
  \<open>get_corrected_grammar\<close>, \<open>compare_answers\<close> or \<open>get_speech_feedback\<close> on the task's
  arguments does: \<open>Inr\<close> its value, \<open>Inl\<close> the exception it raises. The call comes first
  and is not inside a \<open>try\<close>: its exception leaves the task before
  \<open>_run_component_task\<close> is reached. The result is the exception that left the task, if
  any, and the state.
\<close>

definition evaluate_grammar_task ::
  "datetime \<Rightarrow> datetime \<Rightarrow> nat \<Rightarrow> string + json \<Rightarrow> system \<Rightarrow> string option \<times> system" where
  "evaluate_grammar_task now1 now2 component_id llm s =
     (case llm of
        Inl e \<Rightarrow> (Some e, s)
      | Inr result \<Rightarrow>
          (None, run_component_task now1 now2 component_id ''Grammar evaluation''
                   (Inr (JDict [(''grammar_feedback'', result)])) s))"

definition evaluate_content_task ::
  "datetime \<Rightarrow> datetime \<Rightarrow> nat \<Rightarrow> string + json \<Rightarrow> system \<Rightarrow> string option \<times> system" where
  "evaluate_content_task now1 now2 component_id llm s =
     (case llm of
        Inl e \<Rightarrow> (Some e, s)
      | Inr result \<Rightarrow>
          (None, run_component_task now1 now2 component_id ''Content evaluation''
                   (Inr (JDict [(''content_evaluation'', result)])) s))"

definition evaluate_pronunciation_task ::
  "datetime \<Rightarrow> datetime \<Rightarrow> nat \<Rightarrow> string + json \<Rightarrow> system \<Rightarrow> string option \<times> system" where
  "evaluate_pronunciation_task now1 now2 component_id llm s =
     (case llm of
        Inl e \<Rightarrow> (Some e, s)
      | Inr result \<Rightarrow>
          (None, run_component_task now1 now2 component_id ''Pronunciation evaluation''
                   (Inr (JDict [(''pronunciation_feedback'', result)])) s))"

text \<open>
  The sentiment task, lines 95 to 97, for comparison: the analysis runs inside
  \<open>_run_component_task\<close>, so its exception is recorded on the component.
\<close>

definition analyze_text_sentiment_task ::
  "datetime \<Rightarrow> datetime \<Rightarrow> nat \<Rightarrow> string + json \<Rightarrow> system \<Rightarrow> string option \<times> system" where
  "analyze_text_sentiment_task now1 now2 component_id analysis s =
     (None, run_component_task now1 now2 component_id ''Text sentiment analysis'' analysis s)"

section \<open>Completion Aggregator (main.py, get\_task\_status)\<close>

text \<open>
  Lines 240 to 244: the parent row of this task and user (\<open>.first()\<close>) and the component
  rows of the task (\<open>.all()\<close>), in row order.
\<close>

definition select_parent :: "system \<Rightarrow> string \<Rightarrow> nat \<Rightarrow> BackgroundTask option" where
  "select_parent s task_id uid =
     find (\<lambda>p. p_task_id p = task_id \<and> p_user_id p = uid) (background_tasks s)"

definition select_components :: "system \<Rightarrow> string \<Rightarrow> EvaluationComponentResult list" where
  "select_components s task_id =
     filter (\<lambda>c. c_parent_task_id c = task_id) (component_results s)"

text \<open>
  Line 248: the dict comprehension keeps, for each component type, the status of the
  last row of that type. Lines 250 and 251 count over the dict's values, one per key.
\<close>

definition component_statuses ::
  "EvaluationComponentResult list \<Rightarrow> EvaluationComponentType \<Rightarrow> TaskStatus option" where
  "component_statuses components =
     map_of (rev (map (\<lambda>c. (c_component_type c, c_status c)) components))"

definition count_status :: "EvaluationComponentResult list \<Rightarrow> TaskStatus \<Rightarrow> nat" where
  "count_status components st =
     length (filter (\<lambda>t. component_statuses components t = Some st) all_component_types)"

definition completed_count :: "EvaluationComponentResult list \<Rightarrow> nat" where
  "completed_count components = count_status components COMPLETED"

definition failed_count :: "EvaluationComponentResult list \<Rightarrow> nat" where
  "failed_count components = count_status components FAILED"

text \<open>Lines 267 to 282: the wave-2 jobs, one per text component, in row order.\<close>

definition task_name :: "EvaluationComponentType \<Rightarrow> string" where
  "task_name t = ''tasks.component_tasks.'' @ type_value t @ ''_task''"

definition wave2_job ::
  "BackgroundTask \<Rightarrow> json \<Rightarrow> json \<Rightarrow> EvaluationComponentResult \<Rightarrow> job" where
  "wave2_job parent_task transcript flagged_words comp_entry =
     (let args = [JNum (of_nat (c_id comp_entry)), transcript];
          task_args =
            (if c_component_type comp_entry = GRAMMAR then
               args @ [opt_json (p_question parent_task), opt_json (p_model parent_task)]
             else if c_component_type comp_entry = CONTENT_COMPARISON then
               args @ [opt_json (p_ideal_answer parent_task), opt_json (p_question parent_task),
                       opt_json (p_model parent_task)]
             else if c_component_type comp_entry = PRONUNCIATION then
               args @ [flagged_words, opt_json (p_question parent_task),
                       opt_json (p_model parent_task)]
             else args)
      in (task_name (c_component_type comp_entry), task_args))"

definition text_components :: "EvaluationComponentResult list \<Rightarrow> EvaluationComponentResult list" where
  "text_components components =
     filter (\<lambda>c. c_component_type c \<notin> set [TRANSCRIPTION, AUDIO_FEATURES]) components"

definition final_summary_job :: "string \<Rightarrow> job" where
  "final_summary_job task_id =
     (''tasks.component_tasks.create_final_summary_task'', [JStr task_id])"

text \<open>
  Lines 248 to 297, the body run when the parent is PROCESSING: the new parent object and
  the jobs sent, or the exception that leaves the handler before anything is sent.
  \<open>int((completed_count / len(EvaluationComponentType)) * 90)\<close> divides and multiplies
  exactly for the counts that occur, and \<open>int\<close> of a non-negative number is its floor.
\<close>

definition dispatch_text_tasks ::
  "BackgroundTask \<Rightarrow> EvaluationComponentResult list \<Rightarrow> error + BackgroundTask \<times> job list" where
  "dispatch_text_tasks parent_task components =
     (case find (\<lambda>c. c_component_type c = TRANSCRIPTION) components of
        None \<Rightarrow>
          Inr (parent_task\<lparr>p_status := FAILED,
                 p_error_message := Some ''Transcription result not found.''\<rparr>, [])
      | Some transcription_comp \<Rightarrow>
          (case c_result transcription_comp of
             None \<Rightarrow>
               Inr (parent_task\<lparr>p_status := FAILED,
                      p_error_message := Some ''Transcription result not found.''\<rparr>, [])
           | Some transcript_data \<Rightarrow>
               (case py_get transcript_data ''transcript'' JNull of
                  Inl e \<Rightarrow> Inl e
                | Inr transcript \<Rightarrow>
                    (case py_get transcript_data ''flagged_words'' JNull of
                       Inl e \<Rightarrow> Inl e
                     | Inr flagged_words \<Rightarrow>
                         Inr (parent_task\<lparr>
                                p_result := Some (JDict [(''text_tasks_dispatched'', JBool True)]),
                                p_status_message := Some ''Text analysis tasks dispatched.''\<rparr>,
                              map (wave2_job parent_task transcript flagged_words)
                                (text_components components))))))"

definition evaluate_components ::
  "BackgroundTask \<Rightarrow> EvaluationComponentResult list \<Rightarrow> error + BackgroundTask \<times> job list" where
  "evaluate_components parent_task components =
     (if failed_count components > 0 then
        Inr (parent_task\<lparr>p_status := FAILED,
               p_error_message := Some ''One or more evaluation components failed.''\<rparr>, [])
      else if component_statuses components TRANSCRIPTION = Some COMPLETED \<and>
              component_statuses components AUDIO_FEATURES = Some COMPLETED \<and>
              p_result parent_task = None then
        dispatch_text_tasks parent_task components
      else if completed_count components = len_EvaluationComponentType then
        Inr (parent_task\<lparr>
               p_status_message := Some ''All components complete. Aggregating final results...'',
               p_progress := 95\<rparr>,
             [final_summary_job (p_task_id parent_task)])
      else
        Inr (parent_task\<lparr>
               p_progress :=
                 \<lfloor>(rat_of_nat (completed_count components)
                     / rat_of_nat len_EvaluationComponentType) * 90\<rfloor>,
               p_status_message :=
                 Some (string_of_nat (completed_count components) @ ''/''
                       @ string_of_nat len_EvaluationComponentType
                       @ '' components processed.'')\<rparr>, []))"

text \<open>
  Lines 299 and 300: the parent object is written back to its row. The handler is an
  \<open>async\<close> function with its own database session: it reads the rows (lines 240 to 244),
  then works on the objects it read, sends the jobs and commits. \<open>get_task_status_read\<close>
  is the first part and \<open>get_task_status_write\<close> the second; a request that runs alone
  is \<open>get_task_status\<close>.
\<close>

definition commit_parent :: "BackgroundTask \<Rightarrow> system \<Rightarrow> system" where
  "commit_parent parent_task s =
     s\<lparr>background_tasks :=
         map (\<lambda>r. if p_id r = p_id parent_task then parent_task else r) (background_tasks s)\<rparr>"

type_synonym snapshot = "BackgroundTask option \<times> EvaluationComponentResult list"

definition get_task_status_read :: "string \<Rightarrow> nat \<Rightarrow> system \<Rightarrow> snapshot" where
  "get_task_status_read task_id uid s =
     (select_parent s task_id uid, select_components s task_id)"

definition get_task_status_write :: "snapshot \<Rightarrow> system \<Rightarrow> error + system" where
  "get_task_status_write snap s =
     (case fst snap of
        None \<Rightarrow> Inl HTTP_404_NOT_FOUND
      | Some parent_task \<Rightarrow>
          if p_status parent_task = PROCESSING then
            (case evaluate_components parent_task (snd snap) of
               Inl e \<Rightarrow> Inl e
             | Inr (parent_task', jobs) \<Rightarrow>
                 Inr (commit_parent parent_task' (s\<lparr>queue := queue s @ jobs\<rparr>)))
          else Inr s)"

definition get_task_status :: "string \<Rightarrow> nat \<Rightarrow> system \<Rightarrow> error + system" where
  "get_task_status task_id uid s =
     get_task_status_write (get_task_status_read task_id uid s) s"

section \<open>Scoring and Final Summarizer (tasks/component\_tasks.py)\<close>

text \<open>
  \<open>round(score, 1)\<close> rounds to the nearest tenth, a tie to the even one. The scores
  that occur (3.0, 4.0 and 5.0) are floats with no rounding error; they are modelled as
  rationals.
\<close>

definition round_half_even :: "rat \<Rightarrow> int" where
  "round_half_even x =
     (let f = \<lfloor>x\<rfloor>; d = x - of_int f
      in if d < 1 / 2 then f else if 1 / 2 < d then f + 1
         else if even f then f else f + 1)"

definition py_round1 :: "rat \<Rightarrow> rat" where
  "py_round1 x = of_int (round_half_even (x * 10)) / 10"

text \<open>
  Lines 124 and 125 (and 127 and 128): the first component of the type that has a result,
  and whether the length of its feedback is under the limit; \<open>Inl\<close> is the exception that
  \<open>.get\<close> or \<open>len\<close> raises.
\<close>

definition feedback_under ::
  "EvaluationComponentType \<Rightarrow> string \<Rightarrow> nat \<Rightarrow> EvaluationComponentResult list \<Rightarrow> error + bool" where
  "feedback_under ty key limit components =
     (case find (\<lambda>c. c_component_type c = ty \<and> c_result c \<noteq> None) components of
        None \<Rightarrow> Inr False
      | Some first_comp \<Rightarrow>
          (case c_result first_comp of
             None \<Rightarrow> Inr False
           | Some payload \<Rightarrow>
               (case py_get payload key (JStr []) of
                  Inl e \<Rightarrow> Inl e
                | Inr feedback \<Rightarrow>
                    (case py_len feedback of
                       Inl e \<Rightarrow> Inl e
                     | Inr n \<Rightarrow> Inr (n < limit)))))"

text \<open>
  \<open>_calculate_rating\<close>, lines 120 to 131. An exception in the grammar line leaves the
  \<open>try\<close> block, so the content line is not run.
\<close>

definition calculate_rating :: "EvaluationComponentResult list \<Rightarrow> rat" where
  "calculate_rating components =
     (let score = 3;
          score' =
            (case feedback_under GRAMMAR ''grammar_feedback'' 300 components of
               Inl e \<Rightarrow> score
             | Inr g \<Rightarrow>
                 (let score1 = (if g then score + 1 else score)
                  in case feedback_under CONTENT_COMPARISON ''content_evaluation'' 500 components of
                       Inl e \<Rightarrow> score1
                     | Inr c \<Rightarrow> (if c then score1 + 1 else score1)))
      in max 1 (min 5 (py_round1 score')))"

text \<open>
  \<open>create_final_summary_task\<close>, lines 134 to 199. What the validation of
  \<open>PracticeSessionCreate\<close> and the commits of the database do is not in the repository:
  \<open>fault\<close> says which of these calls raises for a reason of its own, if any. The unique
  index on \<open>PracticeSession.parent_task_id\<close> (database.py, line 65) is in the model: the
  first commit raises when the table already holds a session of this parent.
\<close>

datatype fault = NoFault | CreateRaises | FirstCommitRaises | SecondCommitRaises

definition results_of ::
  "EvaluationComponentResult list \<Rightarrow> EvaluationComponentType \<Rightarrow> json option" where
  "results_of completed_components =
     map_of (rev (concat (map (\<lambda>c. case c_result c of
                                          None \<Rightarrow> []
                                        | Some v \<Rightarrow> [(c_component_type c, v)])
                              completed_components)))"

text \<open>\<open>results.get(kind, {}).get(key, default)\<close>.\<close>

definition result_field ::
  "(EvaluationComponentType \<Rightarrow> json option) \<Rightarrow> EvaluationComponentType \<Rightarrow> string \<Rightarrow> json
   \<Rightarrow> error + json" where
  "result_field results ty key dflt =
     py_get (case results ty of None \<Rightarrow> JDict [] | Some v \<Rightarrow> v) key dflt"

text \<open>\<open>json.dumps(results.get(kind))\<close>: the text of the value, \<open>null\<close> when absent.\<close>

definition dumps_result ::
  "(EvaluationComponentType \<Rightarrow> json option) \<Rightarrow> EvaluationComponentType \<Rightarrow> json option" where
  "dumps_result results ty = Some (case results ty of None \<Rightarrow> JNull | Some v \<Rightarrow> v)"

fun none_if_null :: "json \<Rightarrow> json option" where
  "none_if_null JNull = None"
| "none_if_null v = Some v"

definition next_id :: "nat list \<Rightarrow> nat" where
  "next_id ids = Suc (fold max ids 0)"

text \<open>Lines 156 to 175: the session record, or the exception raised on the way.\<close>

definition build_session ::
  "datetime \<Rightarrow> BackgroundTask \<Rightarrow> EvaluationComponentResult list \<Rightarrow> error + PracticeSession" where
  "build_session now parent_task completed_components =
     (let results = results_of completed_components
      in case result_field results TRANSCRIPTION ''transcript'' (JStr ''N/A'') of
           Inl e \<Rightarrow> Inl e
         | Inr transcript \<Rightarrow>
        (case result_field results GRAMMAR ''grammar_feedback'' JNull of
           Inl e \<Rightarrow> Inl e
         | Inr grammar_feedback \<Rightarrow>
        (case result_field results PRONUNCIATION ''pronunciation_feedback'' JNull of
           Inl e \<Rightarrow> Inl e
         | Inr pronunciation_feedback \<Rightarrow>
        (case result_field results CONTENT_COMPARISON ''content_evaluation'' JNull of
           Inl e \<Rightarrow> Inl e
         | Inr content_evaluation \<Rightarrow>
             Inr \<lparr>ps_id = 0,
                  ps_parent_task_id = p_task_id parent_task,
                  ps_user_id = p_user_id parent_task,
                  ps_topic = p_topic parent_task,
                  ps_difficulty = p_difficulty parent_task,
                  ps_question = p_question parent_task,
                  ps_ideal_answer = p_ideal_answer parent_task,
                  ps_transcript = transcript,
                  ps_grammar_feedback = none_if_null grammar_feedback,
                  ps_pronunciation_feedback = none_if_null pronunciation_feedback,
                  ps_content_evaluation = none_if_null content_evaluation,
                  ps_audio_features = dumps_result results AUDIO_FEATURES,
                  ps_linguistic_features = dumps_result results LINGUISTIC_TEXT,
                  ps_sentiment_analysis = dumps_result results SENTIMENT_TEXT,
                  ps_emotion_analysis = dumps_result results EMOTION_TEXT,
                  ps_rating = calculate_rating completed_components,
                  ps_created_at = now\<rparr>))))"

text \<open>
  Lines 137 to 190, the \<open>try\<close> block: the new state, or the exception together with the
  state the database is left in (the session row stays when only the second commit
  fails).
\<close>

definition summary_try :: "datetime \<Rightarrow> fault \<Rightarrow> string \<Rightarrow> system \<Rightarrow> error \<times> system + system" where
  "summary_try now flt parent_task_id s =
     (let all_components = select_components s parent_task_id;
          completed_components = filter (\<lambda>c. c_status c = COMPLETED) all_components
      in case find (\<lambda>p. p_task_id p = parent_task_id) (background_tasks s) of
           None \<Rightarrow> Inl (ValueError, s)
         | Some parent_task \<Rightarrow>
             (case build_session now parent_task completed_components of
                Inl e \<Rightarrow> Inl (e, s)
              | Inr final_session_data \<Rightarrow>
                  if flt = CreateRaises then Inl (ValidationError, s)
                  else if flt = FirstCommitRaises then Inl (StorageError, s)
                  else if \<exists>r \<in> set (practice_sessions s).
                            ps_parent_task_id r = parent_task_id then Inl (IntegrityError, s)
                  else
                    (let db_practice_session =
                           final_session_data\<lparr>ps_id := next_id (map ps_id (practice_sessions s))\<rparr>;
                         s1 = s\<lparr>practice_sessions := practice_sessions s @ [db_practice_session]\<rparr>;
                         parent_task' = parent_task\<lparr>
                           p_status := COMPLETED,
                           p_status_message :=
                             Some (''Evaluation complete. View results in session ''
                                   @ string_of_nat (ps_id db_practice_session) @ ''.''),
                           p_progress := 100,
                           p_completed_at := Some now,
                           p_result :=
                             Some (JDict [(''practice_session_id'',
                                           JNum (of_nat (ps_id db_practice_session)))])\<rparr>
                     in if flt = SecondCommitRaises then Inl (StorageError, s1)
                        else Inr (commit_parent parent_task' s1))))"

text \<open>Lines 191 to 199, the \<open>except\<close> block, on the state the \<open>try\<close> block left.\<close>

definition summary_except :: "string \<Rightarrow> system \<Rightarrow> system" where
  "summary_except parent_task_id s =
     (case find (\<lambda>p. p_task_id p = parent_task_id) (background_tasks s) of
        None \<Rightarrow> s
      | Some parent_task \<Rightarrow>
          commit_parent (parent_task\<lparr>p_status := FAILED,
                           p_error_message := Some ''Failed to create final summary.''\<rparr>) s)"

definition create_final_summary_task :: "datetime \<Rightarrow> fault \<Rightarrow> string \<Rightarrow> system \<Rightarrow> system" where
  "create_final_summary_task now flt parent_task_id s =
     (case summary_try now flt parent_task_id s of
        Inr s' \<Rightarrow> s'
      | Inl (e, s') \<Rightarrow> summary_except parent_task_id s')"

section \<open>Task creation (main.py, evaluate\_speech\_async)\<close>

text \<open>
  Lines 200 to 233, for an upload that is stored without error: the parent row and one
  component row per type with the defaults of database.py, the two wave-1 jobs, and the
  parent set to PROCESSING. \<open>parent_task_id\<close> is the UUID drawn and \<open>temp_audio_path\<close>
  the path of the stored upload.
\<close>

definition new_component :: "datetime \<Rightarrow> string \<Rightarrow> nat \<Rightarrow> EvaluationComponentType
  \<Rightarrow> EvaluationComponentResult" where
  "new_component now parent_task_id i comp_type =
     \<lparr>c_id = i, c_parent_task_id = parent_task_id, c_component_type = comp_type,
      c_status = PENDING, c_status_message = Some ''Component task submitted...'',
      c_result = None, c_error_message = None, c_created_at = now, c_updated_at = now,
      c_completed_at = None\<rparr>"

definition wave1_jobs ::
  "string \<Rightarrow> string \<Rightarrow> string \<Rightarrow> string \<Rightarrow> string \<Rightarrow> EvaluationComponentResult \<Rightarrow> job list" where
  "wave1_jobs temp_audio_path parent_task_id question ideal_answer model comp_entry =
     (if c_component_type comp_entry = TRANSCRIPTION then
        [(''tasks.component_tasks.transcribe_audio_task'',
          [JNum (of_nat (c_id comp_entry)), JStr temp_audio_path, JStr parent_task_id,
           JStr question, JStr ideal_answer, JStr model])]
      else if c_component_type comp_entry = AUDIO_FEATURES then
        [(''tasks.component_tasks.audio_features_task'',
          [JNum (of_nat (c_id comp_entry)), JStr temp_audio_path])]
      else [])"

definition evaluate_speech_async ::
  "datetime \<Rightarrow> string \<Rightarrow> string \<Rightarrow> nat \<Rightarrow> string \<Rightarrow> string \<Rightarrow> string \<Rightarrow> string \<Rightarrow> string
   \<Rightarrow> system \<Rightarrow> system" where
  "evaluate_speech_async now parent_task_id temp_audio_path uid topic difficulty question
     ideal_answer model s =
     (let parent_task =
            \<lparr>p_id = next_id (map p_id (background_tasks s)), p_user_id = uid,
             p_task_id = parent_task_id, p_task_type = ''master_speech_evaluation'',
             p_topic = Some topic, p_difficulty = Some difficulty, p_question = Some question,
             p_ideal_answer = Some ideal_answer, p_model = Some model,
             p_status = PROCESSING, p_progress = 0,
             p_status_message = Some ''Initial audio analysis tasks dispatched.'',
             p_result = None, p_error_message = None, p_created_at = now,
             p_updated_at = now, p_completed_at = None\<rparr>;
          first_id = next_id (map c_id (component_results s));
          component_entries =
            map (\<lambda>(i, comp_type). new_component now parent_task_id (first_id + i) comp_type)
              (enumerate 0 all_component_types)
      in s\<lparr>background_tasks := background_tasks s @ [parent_task],
           component_results := component_results s @ component_entries,
           queue := queue s @ concat (map (wave1_jobs temp_audio_path parent_task_id question
                                             ideal_answer model) component_entries)\<rparr>)"

section \<open>Runs of the system\<close>

text \<open>
  The three operations on an existing task: a status query, a report of a worker through
  the Status Updater, and the run of a queued final-summary job by a worker, which takes
  the job off the queue; without such a job in the queue there is nothing to run. A
  status query that raises leaves the state as it was.
\<close>

datatype operation =
    GetStatus string nat
  | ReportComponent datetime nat TaskStatus "string option" "json option" "string option"
  | FinalSummary datetime fault string

fun step :: "operation \<Rightarrow> system \<Rightarrow> system" where
  "step (GetStatus task_id uid) s =
     (case get_task_status task_id uid s of Inl e \<Rightarrow> s | Inr s' \<Rightarrow> s')"
| "step (ReportComponent now component_id status status_message result err) s =
     update_component_task_status_sync now component_id status status_message result err s"
| "step (FinalSummary now flt task_id) s =
     (if final_summary_job task_id \<in> set (queue s) then
        create_final_summary_task now flt task_id
          (s\<lparr>queue := remove1 (final_summary_job task_id) (queue s)\<rparr>)
      else s)"

definition run :: "operation list \<Rightarrow> system \<Rightarrow> system" where
  "run ops s = fold step ops s"

definition parent_status :: "system \<Rightarrow> string \<Rightarrow> TaskStatus option" where
  "parent_status s task_id =
     map_option p_status (find (\<lambda>p. p_task_id p = task_id) (background_tasks s))"

section \<open>A sample run\<close>

text \<open>
  One task created on an empty database by user 7, then the reports of the two wave-1
  workers (component 1 is the transcription, component 2 the audio features), then the
  reports of the six wave-2 workers.
\<close>

definition empty_system :: system where
  "empty_system =
     \<lparr>background_tasks = [], component_results = [], practice_sessions = [], queue = []\<rparr>"

definition created_system :: system where
  "created_system =
     evaluate_speech_async 1 ''task-1'' ''/tmp/audio_task-1_a.wav'' 7 ''travel'' ''easy''
       ''Describe a trip.'' ''I went to the sea.'' ''mistral:latest'' empty_system"

definition transcription_result :: json where
  "transcription_result =
     JDict [(''transcript'', JStr ''the quick brown fox''), (''flagged_words'', JList [])]"

definition wave1_reports :: "operation list" where
  "wave1_reports =
     [ReportComponent 2 1 PROCESSING (Some ''Transcription in progress...'') None None,
      ReportComponent 3 1 COMPLETED (Some ''Transcription complete.'')
        (Some transcription_result) None,
      ReportComponent 4 2 PROCESSING (Some ''Audio feature extraction...'') None None,
      ReportComponent 5 2 COMPLETED (Some ''Analysis complete.'')
        (Some (JDict [(''pitch_mean'', JNum 120)])) None]"

definition completed_report :: "datetime \<Rightarrow> nat \<Rightarrow> string \<Rightarrow> json \<Rightarrow> operation" where
  "completed_report now component_id key v =
     ReportComponent now component_id COMPLETED (Some ''Analysis complete.'')
       (Some (JDict [(key, v)])) None"

definition wave2_reports :: "operation list" where
  "wave2_reports =
     [completed_report 10 3 ''dominant_emotion'' (JStr ''joy''),
      completed_report 11 4 ''sentiment_label'' (JStr ''positive''),
      completed_report 12 5 ''word_count'' (JNum 4),
      completed_report 13 6 ''grammar_feedback'' (JStr ''No errors.''),
      completed_report 14 7 ''content_evaluation'' (JStr ''Close to the ideal answer.''),
      completed_report 15 8 ''pronunciation_feedback'' (JStr ''Your speech was clear!'')]"

definition wave1_done :: system where
  "wave1_done = run wave1_reports created_system"

definition all_done :: system where
  "all_done = run (wave1_reports @ [GetStatus ''task-1'' 7] @ wave2_reports) created_system"

text \<open>
  Components for the scoring function: a COMPLETED grammar component and a COMPLETED
  content-comparison component whose feedback texts have the given lengths.
\<close>

definition feedback_component ::
  "nat \<Rightarrow> EvaluationComponentType \<Rightarrow> string \<Rightarrow> nat \<Rightarrow> EvaluationComponentResult" where
  "feedback_component i ty key n =
     \<lparr>c_id = i, c_parent_task_id = ''task-1'', c_component_type = ty,
      c_status = COMPLETED, c_status_message = Some ''Analysis complete.'',
      c_result = Some (JDict [(key, JStr (replicate n (CHR ''a'')))]),
      c_error_message = None, c_created_at = 1, c_updated_at = 2, c_completed_at = Some 2\<rparr>"

definition rated_components :: "nat \<Rightarrow> nat \<Rightarrow> EvaluationComponentResult list" where
  "rated_components g c =
     [feedback_component 6 GRAMMAR ''grammar_feedback'' g,
      feedback_component 7 CONTENT_COMPARISON ''content_evaluation'' c]"

text \<open>
  The state after wave 1 with, in addition, the sentiment component (component 4)
  reported FAILED: a FAILED component together with a complete wave 1 and wave 2 not
  dispatched.
\<close>

definition failed_and_ready :: system where
  "failed_and_ready =
     run (wave1_reports @
          [ReportComponent 6 4 FAILED (Some ''Text sentiment analysis error: no model'') None
             (Some ''Text sentiment analysis error: no model'')]) created_system"

text \<open>
  Both wave-1 components reported COMPLETED, the transcription without a result.
\<close>

definition transcript_missing :: system where
  "transcript_missing =
     run [ReportComponent 3 1 COMPLETED (Some ''Transcription complete.'') None None,
          ReportComponent 5 2 COMPLETED (Some ''Analysis complete.'')
            (Some (JDict [(''pitch_mean'', JNum 120)])) None] created_system"

text \<open>
  Two status requests for the same task that run at the same time, each in its own
  database session: both have read the rows (lines 240 to 244) before either has
  committed (line 300). The first then evaluates, sends and commits, and the second does
  the same on the rows it read.
\<close>

definition get_task_status_twice_concurrently ::
  "string \<Rightarrow> nat \<Rightarrow> system \<Rightarrow> error + system" where
  "get_task_status_twice_concurrently task_id uid s =
     (let snap1 = get_task_status_read task_id uid s;
          snap2 = get_task_status_read task_id uid s
      in case get_task_status_write snap1 s of
           Inl e \<Rightarrow> Inl e
         | Inr s1 \<Rightarrow> get_task_status_write snap2 s1)"

text \<open>The same two requests, one after the other.\<close>

definition get_task_status_twice :: "string \<Rightarrow> nat \<Rightarrow> system \<Rightarrow> error + system" where
  "get_task_status_twice task_id uid s =
     (case get_task_status task_id uid s of
        Inl e \<Rightarrow> Inl e
      | Inr s1 \<Rightarrow> get_task_status task_id uid s1)"

definition wave2_job_names :: "string list" where
  "wave2_job_names =
     map task_name [EMOTION_TEXT, SENTIMENT_TEXT, LINGUISTIC_TEXT, GRAMMAR,
                    CONTENT_COMPARISON, PRONUNCIATION]"

definition sent_names :: "error + system \<Rightarrow> string list" where
  "sent_names r = (case r of Inl e \<Rightarrow> [] | Inr s \<Rightarrow> map fst (queue s))"

text \<open>The sample run up to the status query that dispatches wave 2.\<close>

definition wave2_dispatched :: system where
  "wave2_dispatched = run (wave1_reports @ [GetStatus ''task-1'' 7]) created_system"

section \<open>Status Updater: the row after a report\<close>

lemma update_component_entry_id:
  "c_id (update_component_entry now st m r e x) = c_id x"
  by (simp add: update_component_entry_def Let_def)

lemma find_commit_component:
  "find (\<lambda>r. c_id r = cid) rows = Some x \<Longrightarrow> c_id e = cid \<Longrightarrow>
   find (\<lambda>r. c_id r = cid) (map (\<lambda>r. if c_id r = cid then e else r) rows) = Some e"
  by (induction rows) (auto split: if_splits)

lemma session_get_component_id:
  "session_get_component s cid = Some x \<Longrightarrow> c_id x = cid"
  by (auto simp: session_get_component_def find_Some_iff)

lemma session_get_component_update:
  assumes "session_get_component s cid = Some x"
  shows "session_get_component (update_component_task_status_sync now cid st m r e s) cid
     = Some (update_component_entry now st m r e x)"
proof -
  have "c_id x = cid" using assms by (rule session_get_component_id)
  then show ?thesis
    using assms find_commit_component[of cid "component_results s" x
        "update_component_entry now st m r e x"]
    by (simp add: session_get_component_def update_component_task_status_sync_def
        commit_component_def update_component_entry_id)
qed

lemma update_component_entry_twice:
  "update_component_entry t2 st m r e (update_component_entry t1 st m r e x)
     = update_component_entry t2 st m r e x"
  by (simp add: update_component_entry_def Let_def)

lemma update_component_entry_twice_terminal:
  "st = COMPLETED \<or> st = FAILED \<Longrightarrow>
   update_component_entry t2 st m r e (update_component_entry t1 st m r e x)
     = (update_component_entry t1 st m r e x)\<lparr>c_updated_at := t2, c_completed_at := Some t2\<rparr>"
  by (auto simp add: update_component_entry_def Let_def)

lemma commit_component_twice:
  "c_id e2 = c_id e1 \<Longrightarrow>
   commit_component e2 (commit_component e1 s) = commit_component e2 s"
  by (simp add: commit_component_def comp_def)

lemma update_sync_twice:
  "update_component_task_status_sync t2 cid st m r e
     (update_component_task_status_sync t1 cid st m r e s)
   = update_component_task_status_sync t2 cid st m r e s"
proof (cases "session_get_component s cid")
  case None
  then show ?thesis by (simp add: update_component_task_status_sync_def)
next
  case (Some x)
  have 1: "session_get_component (update_component_task_status_sync t1 cid st m r e s) cid
     = Some (update_component_entry t1 st m r e x)"
    using Some by (rule session_get_component_update)
  show ?thesis
    using Some 1
    by (simp add: update_component_task_status_sync_def[of t2] update_component_entry_twice)
       (simp add: update_component_task_status_sync_def commit_component_twice
          update_component_entry_id)
qed

text \<open>
  Claim C4, as stated: a component that is COMPLETED or FAILED is never moved back to
  PROCESSING by a later report, and its \<open>completed_at\<close> is written on the first
  transition into a terminal status only. The code does neither. In the sample run the
  transcription component is COMPLETED with \<open>completed_at = 3\<close>; a report of PROCESSING
  at time 9 leaves it PROCESSING, and a second report of COMPLETED at time 9 moves
  \<open>completed_at\<close> to 9.
\<close>

theorem terminal_component_reopened_counterexample:
  "map_option c_status (session_get_component wave1_done 1) = Some COMPLETED
   \<and> map_option c_completed_at (session_get_component wave1_done 1) = Some (Some 3)
   \<and> map_option c_status (session_get_component
        (update_component_task_status_sync 9 1 PROCESSING
           (Some ''Transcription in progress...'') None None wave1_done) 1) = Some PROCESSING
   \<and> map_option c_completed_at (session_get_component
        (update_component_task_status_sync 9 1 COMPLETED
           (Some ''Transcription complete.'') (Some transcription_result) None wave1_done) 1)
       = Some (Some 9)"
  by code_simp

text \<open>
  Claim C4, amended: a report sets the status of an existing component to the reported
  status, whatever the status was; \<open>completed_at\<close> becomes the time of the report on
  every report of COMPLETED or FAILED, and is left as it was by a report of any other
  status.
\<close>

theorem report_overwrites_status:
  "session_get_component s cid = Some x \<Longrightarrow>
   (\<exists>y. session_get_component (update_component_task_status_sync now cid st m r e s) cid = Some y
      \<and> c_status y = st
      \<and> c_completed_at y = (if st = COMPLETED \<or> st = FAILED then Some now else c_completed_at x))"
  by (auto simp: session_get_component_update update_component_entry_def Let_def)

theorem report_overwrites_status_witness:
  "\<exists>x y. session_get_component wave1_done 1 = Some x
     \<and> session_get_component (update_component_task_status_sync 9 1 PROCESSING
          (Some ''Transcription in progress...'') None None wave1_done) 1 = Some y
     \<and> c_status y = PROCESSING \<and> c_completed_at y = c_completed_at x"
proof -
  have "session_get_component wave1_done 1 \<noteq> None" by code_simp
  then obtain x where x: "session_get_component wave1_done 1 = Some x" by auto
  from report_overwrites_status[OF x, of 9 PROCESSING "Some ''Transcription in progress...''"
      None None]
  show ?thesis using x by auto
qed

text \<open>
  Claim C5, as stated: two reports in a row with the same terminal status and the same
  arguments leave the row as one report leaves it. The second report reads the clock
  again: on the task just created, a second report of COMPLETED for the transcription
  component, at time 9, changes the row that the first report, at time 3, left.
\<close>

theorem report_twice_counterexample:
  "update_component_task_status_sync 9 1 COMPLETED (Some ''Transcription complete.'')
     (Some transcription_result) None
     (update_component_task_status_sync 3 1 COMPLETED (Some ''Transcription complete.'')
        (Some transcription_result) None created_system)
   \<noteq> update_component_task_status_sync 3 1 COMPLETED (Some ''Transcription complete.'')
       (Some transcription_result) None created_system"
  by code_simp

text \<open>
  Claim C5, amended: two reports in a row with the same terminal status and the same
  arguments leave the state that the second report alone gives; the row is the row
  after the first report with \<open>updated_at\<close> and \<open>completed_at\<close> set to the time of the
  second report, every other column as one report leaves it.
\<close>

theorem report_twice_same_but_timestamps:
  "st = COMPLETED \<or> st = FAILED \<Longrightarrow>
   update_component_task_status_sync t2 cid st m r e
       (update_component_task_status_sync t1 cid st m r e s)
     = update_component_task_status_sync t2 cid st m r e s
   \<and> update_component_entry t2 st m r e (update_component_entry t1 st m r e x)
     = (update_component_entry t1 st m r e x)\<lparr>c_updated_at := t2, c_completed_at := Some t2\<rparr>"
  by (simp only: update_sync_twice update_component_entry_twice_terminal simp_thms)

theorem report_twice_same_but_timestamps_witness:
  "(COMPLETED = COMPLETED \<or> COMPLETED = FAILED)
   \<and> update_component_task_status_sync 9 1 COMPLETED (Some ''Transcription complete.'')
       (Some transcription_result) None
       (update_component_task_status_sync 3 1 COMPLETED (Some ''Transcription complete.'')
          (Some transcription_result) None created_system)
     = update_component_task_status_sync 9 1 COMPLETED (Some ''Transcription complete.'')
         (Some transcription_result) None created_system"
  using report_twice_same_but_timestamps[of COMPLETED 9 1 "Some ''Transcription complete.''"
      "Some transcription_result" None 3 created_system]
  by simp

section \<open>Scoring\<close>

lemma py_round1_of_int: "py_round1 (of_int n) = of_int n"
proof -
  have "rat_of_int n * 10 = of_int (n * 10)" by simp
  then have "round_half_even (of_int n * 10) = n * 10"
    by (simp only: round_half_even_def Let_def floor_of_int) simp
  then show ?thesis by (simp add: py_round1_def)
qed

lemma py_round1_345:
  "py_round1 3 = 3" "py_round1 4 = 4" "py_round1 5 = 5"
  using py_round1_of_int[of 3] py_round1_of_int[of 4] py_round1_of_int[of 5] by simp_all

lemma feedback_under_text:
  assumes "find (\<lambda>c. c_component_type c = ty \<and> c_result c \<noteq> None) components = Some fc"
    and "c_result fc = Some (JDict kvs)"
    and "map_of kvs key = Some (JStr txt)"
  shows "feedback_under ty key limit components = Inr (length txt < limit)"
  using assms by (simp add: feedback_under_def)

lemma feedback_under_absent:
  assumes "find (\<lambda>c. c_component_type c = ty \<and> c_result c \<noteq> None) components = None"
  shows "feedback_under ty key limit components = Inr False"
  using assms by (simp add: feedback_under_def)

lemma calculate_rating_range: "calculate_rating components \<in> {3, 4, 5}"
  by (simp add: calculate_rating_def Let_def py_round1_345 split: sum.splits)

text \<open>
  Claim C6: the score is a function of the components alone. With a grammar component
  and a content-comparison component that carry feedback texts it is 3, plus 1 when the
  grammar feedback is shorter than 300 characters, plus 1 when the content feedback is
  shorter than 500 characters; that is the value clamped to the interval from 1 to 5 and
  rounded to one decimal, both of which leave it as it is.
\<close>

theorem calculate_rating_thresholds:
  assumes "find (\<lambda>c. c_component_type c = GRAMMAR \<and> c_result c \<noteq> None) components = Some gc"
    and "c_result gc = Some (JDict gkvs)"
    and "map_of gkvs ''grammar_feedback'' = Some (JStr gtxt)"
    and "find (\<lambda>c. c_component_type c = CONTENT_COMPARISON \<and> c_result c \<noteq> None) components
           = Some cc"
    and "c_result cc = Some (JDict ckvs)"
    and "map_of ckvs ''content_evaluation'' = Some (JStr ctxt)"
  shows "calculate_rating components
           = 3 + (if length gtxt < 300 then 1 else 0) + (if length ctxt < 500 then 1 else 0)
         \<and> calculate_rating components
           = max 1 (min 5 (py_round1
               (3 + (if length gtxt < 300 then 1 else 0) + (if length ctxt < 500 then 1 else 0))))
         \<and> 1 \<le> calculate_rating components \<and> calculate_rating components \<le> 5"
proof -
  have g: "feedback_under GRAMMAR ''grammar_feedback'' 300 components = Inr (length gtxt < 300)"
    using assms(1-3) by (rule feedback_under_text)
  have c: "feedback_under CONTENT_COMPARISON ''content_evaluation'' 500 components
             = Inr (length ctxt < 500)"
    using assms(4-6) by (rule feedback_under_text)
  show ?thesis
    by (simp add: calculate_rating_def Let_def g c py_round1_345)
qed

text \<open>The example of the specification: 250 and 600 characters give 4.0.\<close>

theorem calculate_rating_thresholds_witness:
  "calculate_rating (rated_components 250 600) = 4"
proof -
  let ?g = "feedback_component 6 GRAMMAR ''grammar_feedback'' 250"
  let ?c = "feedback_component 7 CONTENT_COMPARISON ''content_evaluation'' 600"
  have 1: "find (\<lambda>c. c_component_type c = GRAMMAR \<and> c_result c \<noteq> None)
             (rated_components 250 600) = Some ?g"
    by (simp add: rated_components_def feedback_component_def)
  have 2: "c_result ?g = Some (JDict [(''grammar_feedback'', JStr (replicate 250 (CHR ''a'')))])"
    by (simp add: feedback_component_def)
  have 3: "map_of [(''grammar_feedback'', JStr (replicate 250 (CHR ''a'')))] ''grammar_feedback''
             = Some (JStr (replicate 250 (CHR ''a'')))"
    by simp
  have 4: "find (\<lambda>c. c_component_type c = CONTENT_COMPARISON \<and> c_result c \<noteq> None)
             (rated_components 250 600) = Some ?c"
    by (simp add: rated_components_def feedback_component_def)
  have 5: "c_result ?c = Some (JDict [(''content_evaluation'', JStr (replicate 600 (CHR ''a'')))])"
    by (simp add: feedback_component_def)
  have 6: "map_of [(''content_evaluation'', JStr (replicate 600 (CHR ''a'')))]
             ''content_evaluation'' = Some (JStr (replicate 600 (CHR ''a'')))"
    by simp
  from calculate_rating_thresholds[OF 1 2 3 4 5 6] show ?thesis by simp
qed

section \<open>Completion Aggregator: one evaluation\<close>

lemma len_EvaluationComponentType_8: "len_EvaluationComponentType = 8"
  by (simp add: len_EvaluationComponentType_def all_component_types_def)

lemma count_status_le: "count_status components st \<le> len_EvaluationComponentType"
  by (simp add: count_status_def len_EvaluationComponentType_def)

lemma completed_count_le: "completed_count components \<le> 8"
  using count_status_le[of components COMPLETED]
  by (simp add: completed_count_def len_EvaluationComponentType_8)

lemma progress_floor:
  "\<lfloor>(rat_of_nat c / rat_of_nat 8) * 90\<rfloor> = int (c * 90 div 8)"
proof -
  have "(rat_of_nat c / rat_of_nat 8) * 90 = rat_of_nat (c * 90) / rat_of_nat 8" by simp
  then have "\<lfloor>(rat_of_nat c / rat_of_nat 8) * 90\<rfloor> = \<lfloor>rat_of_nat (c * 90) / rat_of_nat 8\<rfloor>"
    by (rule arg_cong)
  also have "\<dots> = int (c * 90 div 8)" by (rule floor_divide_of_nat_eq)
  finally show ?thesis .
qed

lemma string_of_nat_8: "string_of_nat 8 = ''8''"
  by code_simp

lemma processed_message:
  "string_of_nat c @ ''/'' @ string_of_nat 8 @ '' components processed.''
     = string_of_nat c @ ''/8 components processed.''"
  by (simp only: string_of_nat_8 append.simps)

lemma evaluate_components_alt:
  "evaluate_components parent_task components =
     (if failed_count components > 0 then
        Inr (parent_task\<lparr>p_status := FAILED,
               p_error_message := Some ''One or more evaluation components failed.''\<rparr>, [])
      else if component_statuses components TRANSCRIPTION = Some COMPLETED \<and>
              component_statuses components AUDIO_FEATURES = Some COMPLETED \<and>
              p_result parent_task = None then
        dispatch_text_tasks parent_task components
      else if completed_count components = 8 then
        Inr (parent_task\<lparr>
               p_status_message := Some ''All components complete. Aggregating final results...'',
               p_progress := 95\<rparr>,
             [final_summary_job (p_task_id parent_task)])
      else
        Inr (parent_task\<lparr>
               p_progress := int (completed_count components * 90 div 8),
               p_status_message :=
                 Some (string_of_nat (completed_count components)
                       @ ''/8 components processed.'')\<rparr>, []))"
  by (simp only: evaluate_components_def len_EvaluationComponentType_8 progress_floor
      processed_message)

lemma find_commit_parent:
  "find P rows = Some p \<Longrightarrow> P p' \<Longrightarrow> p_id p' = p_id p \<Longrightarrow>
   find P (map (\<lambda>r. if p_id r = p_id p' then p' else r) rows) = Some p'"
  by (induction rows) (auto split: if_splits)

lemma select_parent_commit:
  assumes "select_parent s task_id uid = Some p"
    and "p_id p' = p_id p" and "p_task_id p' = p_task_id p" and "p_user_id p' = p_user_id p"
    and "background_tasks s' = background_tasks s"
  shows "select_parent (commit_parent p' s') task_id uid = Some p'"
proof -
  have "p_task_id p = task_id \<and> p_user_id p = uid"
    using assms(1) by (auto simp: select_parent_def find_Some_iff)
  then have "p_task_id p' = task_id \<and> p_user_id p' = uid" using assms(3,4) by simp
  then show ?thesis
    using assms(1,2,5)
      find_commit_parent[of "\<lambda>p. p_task_id p = task_id \<and> p_user_id p = uid"
        "background_tasks s" p p']
    by (simp add: select_parent_def commit_parent_def)
qed

lemma queue_commit_parent: "queue (commit_parent p' s) = queue s"
  by (simp add: commit_parent_def)

lemma sessions_commit_parent: "practice_sessions (commit_parent p' s) = practice_sessions s"
  by (simp add: commit_parent_def)

lemma components_commit_parent: "component_results (commit_parent p' s) = component_results s"
  by (simp add: commit_parent_def)

lemma get_task_status_processing:
  assumes "select_parent s task_id uid = Some p" and "p_status p = PROCESSING"
  shows "get_task_status task_id uid s =
     (case evaluate_components p (select_components s task_id) of
        Inl e \<Rightarrow> Inl e
      | Inr (p', jobs) \<Rightarrow> Inr (commit_parent p' (s\<lparr>queue := queue s @ jobs\<rparr>)))"
  using assms
  by (simp add: get_task_status_def get_task_status_read_def get_task_status_write_def)

lemma get_task_status_not_processing:
  assumes "select_parent s task_id uid = Some p" and "p_status p \<noteq> PROCESSING"
  shows "get_task_status task_id uid s = Inr s"
  using assms
  by (simp add: get_task_status_def get_task_status_read_def get_task_status_write_def)

lemma get_task_status_not_found:
  assumes "select_parent s task_id uid = None"
  shows "get_task_status task_id uid s = Inl HTTP_404_NOT_FOUND"
  using assms
  by (simp add: get_task_status_def get_task_status_read_def get_task_status_write_def)

lemma system_queue_same: "s\<lparr>queue := queue s @ []\<rparr> = s"
  by simp

text \<open>
  Claim C2: for a parent that is PROCESSING, one evaluation takes exactly one of four
  branches, tried in this order: a FAILED component; else wave 1 complete and wave 2 not
  dispatched; else all components COMPLETED; else partial progress. With a FAILED
  component the parent becomes FAILED and nothing is sent to the queue, also when wave 1
  is complete and wave 2 is not dispatched.
\<close>

theorem aggregator_branch_order:
  assumes "select_parent s task_id uid = Some p" and "p_status p = PROCESSING"
  shows
   "(0 < failed_count (select_components s task_id) \<longrightarrow>
       (\<exists>s'. get_task_status task_id uid s = Inr s'
          \<and> select_parent s' task_id uid
              = Some (p\<lparr>p_status := FAILED,
                        p_error_message := Some ''One or more evaluation components failed.''\<rparr>)
          \<and> queue s' = queue s))
    \<and> (failed_count (select_components s task_id) = 0
        \<and> component_statuses (select_components s task_id) TRANSCRIPTION = Some COMPLETED
        \<and> component_statuses (select_components s task_id) AUDIO_FEATURES = Some COMPLETED
        \<and> p_result p = None \<longrightarrow>
       get_task_status task_id uid s =
         (case dispatch_text_tasks p (select_components s task_id) of
            Inl e \<Rightarrow> Inl e
          | Inr (p', jobs) \<Rightarrow> Inr (commit_parent p' (s\<lparr>queue := queue s @ jobs\<rparr>))))
    \<and> (failed_count (select_components s task_id) = 0
        \<and> \<not> (component_statuses (select_components s task_id) TRANSCRIPTION = Some COMPLETED
             \<and> component_statuses (select_components s task_id) AUDIO_FEATURES = Some COMPLETED
             \<and> p_result p = None)
        \<and> completed_count (select_components s task_id) = 8 \<longrightarrow>
       get_task_status task_id uid s =
         Inr (commit_parent
                (p\<lparr>p_status_message :=
                      Some ''All components complete. Aggregating final results...'',
                    p_progress := 95\<rparr>)
                (s\<lparr>queue := queue s @ [final_summary_job (p_task_id p)]\<rparr>)))
    \<and> (failed_count (select_components s task_id) = 0
        \<and> \<not> (component_statuses (select_components s task_id) TRANSCRIPTION = Some COMPLETED
             \<and> component_statuses (select_components s task_id) AUDIO_FEATURES = Some COMPLETED
             \<and> p_result p = None)
        \<and> completed_count (select_components s task_id) \<noteq> 8 \<longrightarrow>
       get_task_status task_id uid s =
         Inr (commit_parent
                (p\<lparr>p_progress := int (completed_count (select_components s task_id) * 90 div 8),
                    p_status_message :=
                      Some (string_of_nat (completed_count (select_components s task_id))
                            @ ''/8 components processed.'')\<rparr>)
                s))"
proof (intro conjI impI)
  assume f: "0 < failed_count (select_components s task_id)"
  let ?p' = "p\<lparr>p_status := FAILED,
               p_error_message := Some ''One or more evaluation components failed.''\<rparr>"
  have e: "get_task_status task_id uid s = Inr (commit_parent ?p' s)"
    using f by (simp only: get_task_status_processing[OF assms] evaluate_components_alt
        if_True sum.case prod.case system_queue_same)
  have "select_parent (commit_parent ?p' s) task_id uid = Some ?p'"
    using assms(1) by (rule select_parent_commit) simp_all
  then show "\<exists>s'. get_task_status task_id uid s = Inr s'
      \<and> select_parent s' task_id uid = Some ?p' \<and> queue s' = queue s"
    using e by (simp add: queue_commit_parent)
next
  assume "failed_count (select_components s task_id) = 0
        \<and> component_statuses (select_components s task_id) TRANSCRIPTION = Some COMPLETED
        \<and> component_statuses (select_components s task_id) AUDIO_FEATURES = Some COMPLETED
        \<and> p_result p = None"
  then show "get_task_status task_id uid s =
         (case dispatch_text_tasks p (select_components s task_id) of
            Inl e \<Rightarrow> Inl e
          | Inr (p', jobs) \<Rightarrow> Inr (commit_parent p' (s\<lparr>queue := queue s @ jobs\<rparr>)))"
    by (simp add: get_task_status_processing[OF assms] evaluate_components_alt)
next
  assume a: "failed_count (select_components s task_id) = 0
        \<and> \<not> (component_statuses (select_components s task_id) TRANSCRIPTION = Some COMPLETED
             \<and> component_statuses (select_components s task_id) AUDIO_FEATURES = Some COMPLETED
             \<and> p_result p = None)
        \<and> completed_count (select_components s task_id) = 8"
  from a have f0: "\<not> 0 < failed_count (select_components s task_id)" by simp
  from a have w: "\<not> (component_statuses (select_components s task_id) TRANSCRIPTION = Some COMPLETED
             \<and> component_statuses (select_components s task_id) AUDIO_FEATURES = Some COMPLETED
             \<and> p_result p = None)" by blast
  from a have c8: "completed_count (select_components s task_id) = 8" by blast
  have "evaluate_components p (select_components s task_id) =
     Inr (p\<lparr>p_status_message := Some ''All components complete. Aggregating final results...'',
            p_progress := 95\<rparr>, [final_summary_job (p_task_id p)])"
    by (simp only: evaluate_components_alt f0 w c8 if_False if_True simp_thms)
  then show "get_task_status task_id uid s =
         Inr (commit_parent
                (p\<lparr>p_status_message :=
                      Some ''All components complete. Aggregating final results...'',
                    p_progress := 95\<rparr>)
                (s\<lparr>queue := queue s @ [final_summary_job (p_task_id p)]\<rparr>))"
    by (simp only: get_task_status_processing[OF assms] sum.case prod.case)
next
  assume a: "failed_count (select_components s task_id) = 0
        \<and> \<not> (component_statuses (select_components s task_id) TRANSCRIPTION = Some COMPLETED
             \<and> component_statuses (select_components s task_id) AUDIO_FEATURES = Some COMPLETED
             \<and> p_result p = None)
        \<and> completed_count (select_components s task_id) \<noteq> 8"
  from a have f0: "\<not> 0 < failed_count (select_components s task_id)" by simp
  from a have w: "\<not> (component_statuses (select_components s task_id) TRANSCRIPTION = Some COMPLETED
             \<and> component_statuses (select_components s task_id) AUDIO_FEATURES = Some COMPLETED
             \<and> p_result p = None)" by blast
  from a have c8: "completed_count (select_components s task_id) \<noteq> 8" by blast
  have "evaluate_components p (select_components s task_id) =
     Inr (p\<lparr>p_progress := int (completed_count (select_components s task_id) * 90 div 8),
            p_status_message :=
              Some (string_of_nat (completed_count (select_components s task_id))
                    @ ''/8 components processed.'')\<rparr>, [])"
    by (simp only: evaluate_components_alt f0 w c8 if_False if_True simp_thms)
  then show "get_task_status task_id uid s =
         Inr (commit_parent
                (p\<lparr>p_progress := int (completed_count (select_components s task_id) * 90 div 8),
                    p_status_message :=
                      Some (string_of_nat (completed_count (select_components s task_id))
                            @ ''/8 components processed.'')\<rparr>)
                s)"
    by (simp only: get_task_status_processing[OF assms] sum.case prod.case system_queue_same)
qed


theorem aggregator_branch_order_witness:
  "\<exists>p. select_parent failed_and_ready ''task-1'' 7 = Some p \<and> p_status p = PROCESSING
     \<and> 0 < failed_count (select_components failed_and_ready ''task-1'')
     \<and> component_statuses (select_components failed_and_ready ''task-1'') TRANSCRIPTION
         = Some COMPLETED
     \<and> component_statuses (select_components failed_and_ready ''task-1'') AUDIO_FEATURES
         = Some COMPLETED
     \<and> p_result p = None
     \<and> (\<exists>s'. get_task_status ''task-1'' 7 failed_and_ready = Inr s'
           \<and> map_option p_status (select_parent s' ''task-1'' 7) = Some FAILED
           \<and> queue s' = queue failed_and_ready)"
proof -
  have "map_option (\<lambda>p. (p_status p, p_result p)) (select_parent failed_and_ready ''task-1'' 7)
          = Some (PROCESSING, None)"
    by code_simp
  then obtain p where p: "select_parent failed_and_ready ''task-1'' 7 = Some p"
    and st: "p_status p = PROCESSING" and res: "p_result p = None"
    by auto
  have f: "0 < failed_count (select_components failed_and_ready ''task-1'')" by code_simp
  have t: "component_statuses (select_components failed_and_ready ''task-1'') TRANSCRIPTION
         = Some COMPLETED" by code_simp
  have a: "component_statuses (select_components failed_and_ready ''task-1'') AUDIO_FEATURES
         = Some COMPLETED" by code_simp
  from aggregator_branch_order[OF p st] f
  obtain s' where "get_task_status ''task-1'' 7 failed_and_ready = Inr s'"
    and "select_parent s' ''task-1'' 7
              = Some (p\<lparr>p_status := FAILED,
                        p_error_message := Some ''One or more evaluation components failed.''\<rparr>)"
    and "queue s' = queue failed_and_ready"
    by blast
  then show ?thesis using p st res f t a by simp
qed

text \<open>
  Claim C8: when both wave-1 components are COMPLETED, no component is FAILED and
  wave 2 is not dispatched, the evaluation looks at the result of the transcription
  component. Without a result the parent becomes FAILED with the message that the
  transcription result was not found, and nothing is sent. With a result, the
  transcript and the flagged words are taken from it, one job per text component is
  sent with them, and the parent records that the text tasks were dispatched.
\<close>

theorem wave2_dispatch_or_missing_transcript:
  assumes "select_parent s task_id uid = Some p" and "p_status p = PROCESSING"
    and "failed_count (select_components s task_id) = 0"
    and "component_statuses (select_components s task_id) TRANSCRIPTION = Some COMPLETED"
    and "component_statuses (select_components s task_id) AUDIO_FEATURES = Some COMPLETED"
    and "p_result p = None"
    and "find (\<lambda>c. c_component_type c = TRANSCRIPTION) (select_components s task_id) = Some tc"
  shows
   "(c_result tc = None \<longrightarrow>
       (\<exists>s'. get_task_status task_id uid s = Inr s'
          \<and> select_parent s' task_id uid
              = Some (p\<lparr>p_status := FAILED,
                        p_error_message := Some ''Transcription result not found.''\<rparr>)
          \<and> queue s' = queue s))
    \<and> (\<forall>kvs. c_result tc = Some (JDict kvs) \<longrightarrow>
       (\<exists>s'. get_task_status task_id uid s = Inr s'
          \<and> select_parent s' task_id uid
              = Some (p\<lparr>p_result := Some (JDict [(''text_tasks_dispatched'', JBool True)]),
                        p_status_message := Some ''Text analysis tasks dispatched.''\<rparr>)
          \<and> queue s' = queue s @
               map (wave2_job p
                      (case map_of kvs ''transcript'' of None \<Rightarrow> JNull | Some v \<Rightarrow> v)
                      (case map_of kvs ''flagged_words'' of None \<Rightarrow> JNull | Some v \<Rightarrow> v))
                 (text_components (select_components s task_id))))"
proof -
  have f0: "\<not> 0 < failed_count (select_components s task_id)" using assms(3) by simp
  have w: "component_statuses (select_components s task_id) TRANSCRIPTION = Some COMPLETED \<and>
           component_statuses (select_components s task_id) AUDIO_FEATURES = Some COMPLETED \<and>
           p_result p = None"
    using assms(4-6) by simp
  have ev: "evaluate_components p (select_components s task_id)
              = dispatch_text_tasks p (select_components s task_id)"
    by (simp only: evaluate_components_alt f0 w if_False if_True simp_thms)
  have g: "get_task_status task_id uid s =
     (case dispatch_text_tasks p (select_components s task_id) of
        Inl e \<Rightarrow> Inl e
      | Inr (p', jobs) \<Rightarrow> Inr (commit_parent p' (s\<lparr>queue := queue s @ jobs\<rparr>)))"
    by (simp only: get_task_status_processing[OF assms(1,2)] ev)
  show ?thesis
  proof (intro conjI allI impI)
    assume n: "c_result tc = None"
    let ?p' = "p\<lparr>p_status := FAILED,
                 p_error_message := Some ''Transcription result not found.''\<rparr>"
    have d: "dispatch_text_tasks p (select_components s task_id) = Inr (?p', [])"
      using assms(7) n by (simp add: dispatch_text_tasks_def)
    have e: "get_task_status task_id uid s = Inr (commit_parent ?p' s)"
      by (simp only: g d sum.case prod.case system_queue_same)
    have "select_parent (commit_parent ?p' s) task_id uid = Some ?p'"
      using assms(1) by (rule select_parent_commit) simp_all
    then show "\<exists>s'. get_task_status task_id uid s = Inr s'
        \<and> select_parent s' task_id uid = Some ?p' \<and> queue s' = queue s"
      using e by (simp add: queue_commit_parent)
  next
    fix kvs
    assume r: "c_result tc = Some (JDict kvs)"
    let ?p' = "p\<lparr>p_result := Some (JDict [(''text_tasks_dispatched'', JBool True)]),
                 p_status_message := Some ''Text analysis tasks dispatched.''\<rparr>"
    let ?jobs = "map (wave2_job p
                      (case map_of kvs ''transcript'' of None \<Rightarrow> JNull | Some v \<Rightarrow> v)
                      (case map_of kvs ''flagged_words'' of None \<Rightarrow> JNull | Some v \<Rightarrow> v))
                 (text_components (select_components s task_id))"
    have d: "dispatch_text_tasks p (select_components s task_id) = Inr (?p', ?jobs)"
      using assms(7) r by (simp add: dispatch_text_tasks_def)
    have e: "get_task_status task_id uid s
               = Inr (commit_parent ?p' (s\<lparr>queue := queue s @ ?jobs\<rparr>))"
      by (simp only: g d sum.case prod.case)
    have "select_parent (commit_parent ?p' (s\<lparr>queue := queue s @ ?jobs\<rparr>)) task_id uid
            = Some ?p'"
      using assms(1) by (rule select_parent_commit) simp_all
    then show "\<exists>s'. get_task_status task_id uid s = Inr s'
        \<and> select_parent s' task_id uid = Some ?p' \<and> queue s' = queue s @ ?jobs"
      using e by (simp add: queue_commit_parent)
  qed
qed

theorem wave2_dispatch_or_missing_transcript_witness:
  "(\<exists>s'. get_task_status ''task-1'' 7 transcript_missing = Inr s'
       \<and> map_option (\<lambda>p. (p_status p, p_error_message p)) (select_parent s' ''task-1'' 7)
           = Some (FAILED, Some ''Transcription result not found.'')
       \<and> queue s' = queue transcript_missing)
   \<and> (\<exists>s'. get_task_status ''task-1'' 7 wave1_done = Inr s'
       \<and> map_option (\<lambda>p. (p_status p, p_result p)) (select_parent s' ''task-1'' 7)
           = Some (PROCESSING, Some (JDict [(''text_tasks_dispatched'', JBool True)]))
       \<and> length (queue s') = length (queue wave1_done) + 6)"
proof
  let ?s = transcript_missing
  have "map_option (\<lambda>p. (p_status p, p_result p)) (select_parent ?s ''task-1'' 7)
          = Some (PROCESSING, None)"
    by code_simp
  then obtain p where p: "select_parent ?s ''task-1'' 7 = Some p"
    and st: "p_status p = PROCESSING" and res: "p_result p = None"
    by auto
  have f: "failed_count (select_components ?s ''task-1'') = 0" by code_simp
  have t: "component_statuses (select_components ?s ''task-1'') TRANSCRIPTION = Some COMPLETED"
    by code_simp
  have a: "component_statuses (select_components ?s ''task-1'') AUDIO_FEATURES = Some COMPLETED"
    by code_simp
  have "map_option c_result
          (find (\<lambda>c. c_component_type c = TRANSCRIPTION) (select_components ?s ''task-1''))
        = Some None"
    by code_simp
  then obtain tc
    where tc: "find (\<lambda>c. c_component_type c = TRANSCRIPTION) (select_components ?s ''task-1'')
                 = Some tc"
      and r: "c_result tc = None"
    by auto
  from wave2_dispatch_or_missing_transcript[OF p st f t a res tc] r
  obtain s' where "get_task_status ''task-1'' 7 ?s = Inr s'"
    and "select_parent s' ''task-1'' 7
              = Some (p\<lparr>p_status := FAILED,
                        p_error_message := Some ''Transcription result not found.''\<rparr>)"
    and "queue s' = queue ?s"
    by blast
  then show "\<exists>s'. get_task_status ''task-1'' 7 ?s = Inr s'
       \<and> map_option (\<lambda>p. (p_status p, p_error_message p)) (select_parent s' ''task-1'' 7)
           = Some (FAILED, Some ''Transcription result not found.'')
       \<and> queue s' = queue ?s"
    by simp
next
  let ?s = wave1_done
  have "map_option (\<lambda>p. (p_status p, p_result p)) (select_parent ?s ''task-1'' 7)
          = Some (PROCESSING, None)"
    by code_simp
  then obtain p where p: "select_parent ?s ''task-1'' 7 = Some p"
    and st: "p_status p = PROCESSING" and res: "p_result p = None"
    by auto
  have f: "failed_count (select_components ?s ''task-1'') = 0" by code_simp
  have t: "component_statuses (select_components ?s ''task-1'') TRANSCRIPTION = Some COMPLETED"
    by code_simp
  have a: "component_statuses (select_components ?s ''task-1'') AUDIO_FEATURES = Some COMPLETED"
    by code_simp
  have "map_option c_result
          (find (\<lambda>c. c_component_type c = TRANSCRIPTION) (select_components ?s ''task-1''))
        = Some (Some transcription_result)"
    by code_simp
  then obtain tc
    where tc: "find (\<lambda>c. c_component_type c = TRANSCRIPTION) (select_components ?s ''task-1'')
                 = Some tc"
      and r: "c_result tc = Some (JDict [(''transcript'', JStr ''the quick brown fox''),
                                          (''flagged_words'', JList [])])"
    by (auto simp: transcription_result_def)
  have n: "length (text_components (select_components ?s ''task-1'')) = 6" by code_simp
  from wave2_dispatch_or_missing_transcript[OF p st f t a res tc] r
  obtain s' where "get_task_status ''task-1'' 7 ?s = Inr s'"
    and "select_parent s' ''task-1'' 7
              = Some (p\<lparr>p_result := Some (JDict [(''text_tasks_dispatched'', JBool True)]),
                        p_status_message := Some ''Text analysis tasks dispatched.''\<rparr>)"
    and "length (queue s') = length (queue ?s)
           + length (text_components (select_components ?s ''task-1''))"
    by fastforce
  then show "\<exists>s'. get_task_status ''task-1'' 7 ?s = Inr s'
       \<and> map_option (\<lambda>p. (p_status p, p_result p)) (select_parent s' ''task-1'' 7)
           = Some (PROCESSING, Some (JDict [(''text_tasks_dispatched'', JBool True)]))
       \<and> length (queue s') = length (queue ?s) + 6"
    using st n by simp
qed

section \<open>Dispatching exactly once\<close>

text \<open>
  Once the dispatch marker is written, an evaluation sends no wave-2 job: what it sends
  is nothing or the final-summary job.
\<close>

lemma no_dispatch_after_marker:
  assumes "p_result p \<noteq> None" and "evaluate_components p components = Inr (p', jobs)"
  shows "jobs = [] \<or> jobs = [final_summary_job (p_task_id p)]"
proof -
  have w: "\<not> (component_statuses components TRANSCRIPTION = Some COMPLETED \<and>
               component_statuses components AUDIO_FEATURES = Some COMPLETED \<and>
               p_result p = None)"
    using assms(1) by simp
  have "evaluate_components p components =
     (if failed_count components > 0 then
        Inr (p\<lparr>p_status := FAILED,
               p_error_message := Some ''One or more evaluation components failed.''\<rparr>, [])
      else if completed_count components = 8 then
        Inr (p\<lparr>p_status_message := Some ''All components complete. Aggregating final results...'',
               p_progress := 95\<rparr>,
             [final_summary_job (p_task_id p)])
      else
        Inr (p\<lparr>p_progress := int (completed_count components * 90 div 8),
               p_status_message :=
                 Some (string_of_nat (completed_count components)
                       @ ''/8 components processed.'')\<rparr>, []))"
    by (simp only: evaluate_components_alt w if_False)
  then show ?thesis using assms(2) by (simp split: if_splits)
qed

lemma sequential_requests_dispatch_once:
  "sent_names (get_task_status_twice ''task-1'' 7 wave1_done)
     = map fst (queue wave1_done) @ wave2_job_names"
  by code_simp

text \<open>
  Claim C1: the wave-2 jobs are sent exactly once for a task, also when two status
  requests run at the same time right after wave 1 has completed. In the sample run, two
  such requests that both read the rows before either commits send every wave-2 job
  twice; the same two requests one after the other send them once.
\<close>

theorem concurrent_requests_dispatch_twice:
  "sent_names (get_task_status_twice_concurrently ''task-1'' 7 wave1_done)
     = map fst (queue wave1_done) @ wave2_job_names @ wave2_job_names"
  by code_simp

text \<open>
  Claim C3: the final-summary job is sent once for a task. In the sample run, with all
  eight components COMPLETED and the parent PROCESSING, each of two status requests in a
  row sends it; when both jobs then run, the first persists the outcome and completes
  the parent, and the second fails on the unique index and sets the parent to FAILED.
\<close>

theorem final_summary_sent_twice:
  "count_list (queue (run [GetStatus ''task-1'' 7, GetStatus ''task-1'' 7] all_done))
     (final_summary_job ''task-1'') = 2
   \<and> parent_status (run [GetStatus ''task-1'' 7, GetStatus ''task-1'' 7] all_done) ''task-1''
       = Some PROCESSING
   \<and> parent_status
       (run [GetStatus ''task-1'' 7, GetStatus ''task-1'' 7, FinalSummary 20 NoFault ''task-1'']
          all_done) ''task-1'' = Some COMPLETED
   \<and> parent_status
       (run [GetStatus ''task-1'' 7, GetStatus ''task-1'' 7, FinalSummary 20 NoFault ''task-1'',
             FinalSummary 21 NoFault ''task-1''] all_done) ''task-1'' = Some FAILED"
  by code_simp

section \<open>An analysis that raises before the guarded region\<close>

lemma all_component_types_complete: "ty \<in> set all_component_types"
  by (cases ty) (simp_all add: all_component_types_def)

lemma pending_not_all_complete:
  assumes "component_statuses components ty = Some PENDING"
  shows "completed_count components < len_EvaluationComponentType"
proof -
  have "\<not> (component_statuses components ty = Some COMPLETED)" using assms by simp
  then have "length (filter (\<lambda>t. component_statuses components t = Some COMPLETED)
                all_component_types) < length all_component_types"
    using all_component_types_complete[of ty] by (rule_tac length_filter_less) auto
  then show ?thesis
    by (simp add: completed_count_def count_status_def len_EvaluationComponentType_def)
qed

lemma failed_count_pos:
  assumes "0 < failed_count components"
  shows "\<exists>ty. component_statuses components ty = Some FAILED"
proof -
  have "filter (\<lambda>t. component_statuses components t = Some FAILED) all_component_types \<noteq> []"
    using assms by (simp add: failed_count_def count_status_def)
  then obtain t where "t \<in> set (filter (\<lambda>t. component_statuses components t = Some FAILED)
                                   all_component_types)"
    by (meson last_in_set)
  then show ?thesis by auto
qed

lemma sentiment_failure_recorded:
  assumes "session_get_component s cid = Some x"
  shows "\<exists>y. session_get_component
               (snd (analyze_text_sentiment_task now1 now2 cid (Inl e) s)) cid = Some y
            \<and> c_status y = FAILED"
proof -
  let ?s1 = "update_component_task_status_sync now1 cid PROCESSING
               (Some (''Text sentiment analysis'' @ ''...'')) None None s"
  have "session_get_component ?s1 cid
          = Some (update_component_entry now1 PROCESSING
                    (Some (''Text sentiment analysis'' @ ''...'')) None None x)"
    using assms by (rule session_get_component_update)
  then have "session_get_component
               (update_component_task_status_sync now2 cid FAILED
                  (Some (''Text sentiment analysis'' @ '' error: '' @ e)) None
                  (Some (''Text sentiment analysis'' @ '' error: '' @ e)) ?s1) cid
          = Some (update_component_entry now2 FAILED
                    (Some (''Text sentiment analysis'' @ '' error: '' @ e)) None
                    (Some (''Text sentiment analysis'' @ '' error: '' @ e))
                    (update_component_entry now1 PROCESSING
                       (Some (''Text sentiment analysis'' @ ''...'')) None None x))"
    by (rule session_get_component_update)
  then show ?thesis
    by (simp add: analyze_text_sentiment_task_def run_component_task_def Let_def
        update_component_entry_def)
qed

text \<open>
  Claim C10: in the grammar, content-comparison and pronunciation tasks the analysis is
  called before the component is marked PROCESSING and outside the region that records
  failures. When it raises, the exception leaves the task and the state is what it was:
  the component row is untouched, still PENDING and without an error message if it was
  so. A parent with a component that is PENDING never has all components COMPLETED, and
  if it has a FAILED component, that is another component.
\<close>

theorem llm_task_exception_leaves_component_pending:
  "evaluate_grammar_task now1 now2 cid (Inl e) s = (Some e, s)
   \<and> evaluate_content_task now1 now2 cid (Inl e) s = (Some e, s)
   \<and> evaluate_pronunciation_task now1 now2 cid (Inl e) s = (Some e, s)
   \<and> (component_statuses components ty = Some PENDING \<longrightarrow>
        completed_count components < len_EvaluationComponentType
        \<and> (0 < failed_count components \<longrightarrow>
             (\<exists>ty'. ty' \<noteq> ty \<and> component_statuses components ty' = Some FAILED)))"
proof (intro conjI impI)
  assume p: "component_statuses components ty = Some PENDING"
  then show "completed_count components < len_EvaluationComponentType"
    by (rule pending_not_all_complete)
  assume "0 < failed_count components"
  then obtain ty' where f: "component_statuses components ty' = Some FAILED"
    using failed_count_pos by blast
  have "ty' \<noteq> ty"
  proof
    assume "ty' = ty"
    then have "Some FAILED = Some PENDING" using f p by simp
    then show False by simp
  qed
  then show "\<exists>ty'. ty' \<noteq> ty \<and> component_statuses components ty' = Some FAILED"
    using f by blast
qed (simp_all add: evaluate_grammar_task_def evaluate_content_task_def
      evaluate_pronunciation_task_def)

theorem llm_task_exception_leaves_component_pending_witness:
  "map_option (\<lambda>c. (c_status c, c_error_message c))
       (session_get_component
          (snd (evaluate_grammar_task 8 9 6 (Inl ''ConnectionError'') wave2_dispatched)) 6)
     = Some (PENDING, None)
   \<and> component_statuses
        (select_components
           (snd (evaluate_grammar_task 8 9 6 (Inl ''ConnectionError'') wave2_dispatched))
           ''task-1'') GRAMMAR = Some PENDING
   \<and> completed_count
        (select_components
           (snd (evaluate_grammar_task 8 9 6 (Inl ''ConnectionError'') wave2_dispatched))
           ''task-1'') < len_EvaluationComponentType"
proof -
  let ?s = "snd (evaluate_grammar_task 8 9 6 (Inl ''ConnectionError'') wave2_dispatched)"
  have e: "?s = wave2_dispatched"
    using llm_task_exception_leaves_component_pending[of 8 9 6 "''ConnectionError''"
        wave2_dispatched]
    by simp
  have 1: "map_option (\<lambda>c. (c_status c, c_error_message c))
             (session_get_component wave2_dispatched 6) = Some (PENDING, None)"
    by code_simp
  have 2: "component_statuses (select_components wave2_dispatched ''task-1'') GRAMMAR
             = Some PENDING"
    by code_simp
  from llm_task_exception_leaves_component_pending[of 8 9 6 "''ConnectionError''"
      wave2_dispatched "select_components wave2_dispatched ''task-1''" GRAMMAR] 2
  have 3: "completed_count (select_components wave2_dispatched ''task-1'')
             < len_EvaluationComponentType"
    by blast
  show ?thesis by (simp only: e 1 2 3 simp_thms)
qed

end
